theory Spec2Isabelle
  imports Complex_Main
begin

section \<open>Data model of \<^verbatim>\<open>envlight/light.py\<close>\<close>

text \<open>
  The module is a thin orchestrator (class \<^verbatim>\<open>EnvLight\<close>) around a tensor runtime and a
  handful of rendering collaborators that live outside \<^verbatim>\<open>light.py\<close>. The embedding keeps
  the two apart: everything \<^verbatim>\<open>light.py\<close> computes itself is a HOL function below, and every
  collaborator (\<^verbatim>\<open>imageio.imread\<close>, \<^verbatim>\<open>latlong_to_cubemap\<close>, \<^verbatim>\<open>cubemap_to_latlong\<close>,
  \<^verbatim>\<open>cubemap_mip.apply\<close>, \<^verbatim>\<open>ru.diffuse_cubemap\<close>, \<^verbatim>\<open>ru.specular_cubemap\<close>, \<^verbatim>\<open>dr.texture\<close>,
  \<^verbatim>\<open>torch.rand\<close>) is a field of the record \<open>ext\<close>, passed to every operation.

  Conventions.
  \<^item> \<^verbatim>\<open>float32\<close> values are idealised as \<open>real\<close>: rounding, infinities and NaN are not
    modelled.
  \<^item> A tensor is its shape and its elements in row-major order.
  \<^item> A Python exception is a value of type \<open>error\<close>. A method that mutates \<^verbatim>\<open>self\<close> returns
    the outcome together with the object as the exception (or the return) leaves it.
  \<^item> A collaborator returns \<open>None\<close> when it raises; the model reports that as
    \<open>Failed\<close> of the collaborator, so the exceptions \<^verbatim>\<open>light.py\<close> raises itself stay
    distinguishable.
  \<^item> A collaborator reads its arguments and returns a tensor of its own: its result shares
    no storage with \<^verbatim>\<open>self.base\<close>.
\<close>

datatype collaborator =
  Imread | Latlong_to_cubemap | Cubemap_to_latlong | Cubemap_mip
  | Diffuse_cubemap | Specular_cubemap | Texture

datatype error =
  TypeError | AttributeError | ZeroDivisionError | IndexError | RuntimeError
  | Failed collaborator

record tensor =
  shape :: "nat list"
  vals :: "real list"

datatype np_dtype = Float32 | Float64 | Uint8 | Uint16

record ndarray =
  dtype :: np_dtype
  arr :: tensor

text \<open>\<^verbatim>\<open>torch.nn.Parameter\<close>: an object (identified by \<open>pid\<close>) holding a tensor in \<^verbatim>\<open>.data\<close>.\<close>

record parameter =
  pid :: nat
  data :: tensor
  requires_grad :: bool

text \<open>
  An element of the list \<^verbatim>\<open>self.specular\<close>. \<^verbatim>\<open>build_mips\<close> starts the list as
  \<^verbatim>\<open>[self.base]\<close>: its first element is the parameter object itself, not a copy, so it
  follows every later assignment to \<^verbatim>\<open>self.base.data\<close>. \<open>BaseRef\<close> is that alias;
  \<open>Own t\<close> is a tensor of the list's own.
\<close>

datatype level = BaseRef | Own tensor

text \<open>The arguments of one call of \<^verbatim>\<open>dr.texture\<close>.\<close>

record tex_args =
  tex :: tensor
  uv :: tensor
  mip :: "tensor list"
  mip_level_bias :: "tensor option"
  filter_mode :: string
  boundary_mode :: string

record ext =
  imread :: "string \<Rightarrow> ndarray option"
  latlong_to_cubemap :: "tensor \<Rightarrow> nat list \<Rightarrow> string \<Rightarrow> tensor option"
  cubemap_to_latlong :: "tensor \<Rightarrow> nat list \<Rightarrow> tensor option"
  cubemap_mip :: "tensor \<Rightarrow> tensor option"
  diffuse_cubemap :: "tensor \<Rightarrow> tensor option"
  specular_cubemap :: "tensor \<Rightarrow> real \<Rightarrow> real \<Rightarrow> tensor option"
  texture :: "tex_args \<Rightarrow> tensor option"
  torch_rand :: "nat \<Rightarrow> real list"

text \<open>
  The attributes of an \<^verbatim>\<open>EnvLight\<close> object. \<^verbatim>\<open>base_image\<close> is assigned only by \<^verbatim>\<open>load\<close>,
  \<^verbatim>\<open>gen_base_image\<close> and \<^verbatim>\<open>update_light\<close>; \<open>None\<close> is the attribute not existing yet.
\<close>

record envlight =
  device :: string
  scale :: real
  min_res :: nat
  max_res :: nat
  min_roughness :: real
  max_roughness :: real
  trainable :: bool
  base :: parameter
  base_image :: "tensor option"
  specular :: "level list"
  diffuse :: tensor

section \<open>Tensor operations used by the module\<close>

definition tmap :: "(real \<Rightarrow> real) \<Rightarrow> tensor \<Rightarrow> tensor" where
  "tmap f t = t\<lparr>vals := map f (vals t)\<rparr>"

definition numel :: "tensor \<Rightarrow> nat" where
  "numel t = length (vals t)"

text \<open>\<^verbatim>\<open>t.shape[1]\<close>; a tensor of fewer than two dimensions raises \<^verbatim>\<open>IndexError\<close>.\<close>

definition shape1 :: "tensor \<Rightarrow> error + nat" where
  "shape1 t = (if length (shape t) < 2 then Inl IndexError else Inr (shape t ! 1))"

text \<open>\<^verbatim>\<open>t[None, ...]\<close>: a leading dimension of size one.\<close>

definition unsqueeze0 :: "tensor \<Rightarrow> tensor" where
  "unsqueeze0 t = t\<lparr>shape := 1 # shape t\<rparr>"

text \<open>
  \<^verbatim>\<open>t.reshape(*dims)\<close> and \<^verbatim>\<open>t.view(*dims)\<close>, where one entry of \<open>dims\<close> may be \<open>-1\<close>
  (here \<open>None\<close>) and is inferred from the number of elements. The call raises
  \<^verbatim>\<open>RuntimeError\<close> when the sizes do not fit, when more than one entry is \<open>-1\<close>, and when
  the known entries multiply to zero so that \<open>-1\<close> is ambiguous.
\<close>

definition reshape :: "tensor \<Rightarrow> nat option list \<Rightarrow> error + tensor" where
  "reshape t dims =
     (let known = prod_list (map (\<lambda>d. case d of None \<Rightarrow> 1 | Some n \<Rightarrow> n) dims);
          holes = length (filter (\<lambda>d. d = None) dims)
      in if holes = 0 then
           (if known = numel t then Inr (t\<lparr>shape := map the dims\<rparr>) else Inl RuntimeError)
         else if holes = 1 \<and> known \<noteq> 0 \<and> numel t mod known = 0 then
           Inr (t\<lparr>shape := map (\<lambda>d. case d of None \<Rightarrow> numel t div known | Some n \<Rightarrow> n) dims\<rparr>)
         else Inl RuntimeError)"

text \<open>
  \<^verbatim>\<open>t[..., 0]\<close>: index 0 of the last dimension. Raises \<^verbatim>\<open>IndexError\<close> on a tensor without
  dimensions and when the last dimension is empty.
\<close>

definition index_last0 :: "tensor \<Rightarrow> error + tensor" where
  "index_last0 t =
     (if shape t = [] \<or> last (shape t) = 0 then Inl IndexError
      else Inr \<lparr>shape = butlast (shape t),
                vals = map (\<lambda>k. vals t ! (k * last (shape t)))
                           [0 ..< numel t div last (shape t)]\<rparr>)"

text \<open>
  \<^verbatim>\<open>torch.roll(t, delta, dims=d)\<close>: every element moves \<open>delta\<close> places towards higher
  indices along dimension \<open>d\<close>, and wraps around. \<open>inner\<close> is the stride of that dimension.
  A dimension the tensor does not have raises \<^verbatim>\<open>IndexError\<close>.
\<close>

definition roll_src :: "nat \<Rightarrow> nat \<Rightarrow> int \<Rightarrow> nat \<Rightarrow> nat" where
  "roll_src n inner delta k =
     (let j = (k div inner) mod n;
          j' = nat ((int j - delta) mod int n)
      in k - j * inner + j' * inner)"

definition torch_roll :: "tensor \<Rightarrow> int \<Rightarrow> nat \<Rightarrow> error + tensor" where
  "torch_roll t delta d =
     (if length (shape t) \<le> d then Inl IndexError
      else Inr (t\<lparr>vals := map (\<lambda>k. vals t ! roll_src (shape t ! d) (prod_list (drop (Suc d) (shape t))) delta k)
                                [0 ..< numel t]\<rparr>))"

text \<open>\<^verbatim>\<open>torch.clamp(x, lo, hi)\<close> is \<open>min (max x lo) hi\<close> on every element.\<close>

definition torch_clamp :: "real \<Rightarrow> real \<Rightarrow> real \<Rightarrow> real" where
  "torch_clamp x lo hi = min (max x lo) hi"

section \<open>Module-level functions\<close>

text \<open>
  \<^verbatim>\<open>create_trainable_env_rnd(base_res, scale=0.0, bias=0.5, device='cuda')\<close>:
  \<^verbatim>\<open>torch.rand(6, base_res, base_res, 3) * scale + bias\<close>.
\<close>

definition create_trainable_env_rnd :: "ext \<Rightarrow> nat \<Rightarrow> real \<Rightarrow> real \<Rightarrow> tensor" where
  "create_trainable_env_rnd x base_res scale_arg bias =
     tmap (\<lambda>u. u * scale_arg + bias)
       \<lparr>shape = [6, base_res, base_res, 3], vals = torch_rand x (6 * base_res * base_res * 3)\<rparr>"

definition rnd_default_scale :: real where
  "rnd_default_scale = 0.0"

definition rnd_default_bias :: real where
  "rnd_default_bias = 0.5"

text \<open>\<^verbatim>\<open>create_trainable_env_fix(base_res, value, device='cuda')\<close>: \<^verbatim>\<open>torch.full\<close>.\<close>

definition create_trainable_env_fix :: "nat \<Rightarrow> real \<Rightarrow> tensor" where
  "create_trainable_env_fix base_res v =
     \<lparr>shape = [6, base_res, base_res, 3], vals = replicate (6 * base_res * base_res * 3) v\<rparr>"

section \<open>\<^verbatim>\<open>EnvLight\<close>\<close>

text \<open>The tensor an element of \<^verbatim>\<open>self.specular\<close> denotes, given the current \<^verbatim>\<open>self.base.data\<close>.\<close>

fun resolve :: "tensor \<Rightarrow> level \<Rightarrow> tensor" where
  "resolve b BaseRef = b"
| "resolve b (Own t) = t"

subsection \<open>\<^verbatim>\<open>get_mip\<close>\<close>

text \<open>
  One element of \<^verbatim>\<open>get_mip\<close>, for a chain of \<open>M = len(self.specular)\<close> levels.
  \<^verbatim>\<open>len(self.specular) - 2\<close> is a Python integer and is negative for \<open>M = 1\<close>. The second
  branch is written as the source associates it: \<open>(\<dots> / \<dots> + M) - 2\<close>.
  \<^verbatim>\<open>torch.where\<close> evaluates both branches for every element. When
  \<open>max_roughness = min_roughness\<close> or \<open>max_roughness = 1\<close> a branch divides by zero, which
  gives an infinity or NaN in \<^verbatim>\<open>float32\<close> and 0 here; the statements about the values of
  \<^verbatim>\<open>get_mip\<close> below all assume \<open>min_roughness < max_roughness < 1\<close>.
\<close>

definition get_mip_elt :: "real \<Rightarrow> real \<Rightarrow> nat \<Rightarrow> real \<Rightarrow> real" where
  "get_mip_elt min_r max_r M r =
     (if r < max_r
      then (torch_clamp r min_r max_r - min_r) / (max_r - min_r) * real_of_int (int M - 2)
      else (torch_clamp r max_r 1.0 - max_r) / (1.0 - max_r) + real M - 2)"

text \<open>
  \<^verbatim>\<open>get_mip(roughness)\<close>. \<^verbatim>\<open>roughness\<close> may be \<^verbatim>\<open>None\<close>; then the first thing evaluated,
  \<^verbatim>\<open>roughness < self.max_roughness\<close>, raises \<^verbatim>\<open>TypeError\<close>.
\<close>

definition get_mip :: "envlight \<Rightarrow> tensor option \<Rightarrow> error + tensor" where
  "get_mip s roughness =
     (case roughness of
        None \<Rightarrow> Inl TypeError
      | Some r \<Rightarrow>
          Inr (tmap (get_mip_elt (min_roughness s) (max_roughness s) (length (specular s))) r))"

subsection \<open>\<^verbatim>\<open>load\<close>, \<^verbatim>\<open>gen_base_image\<close>, \<^verbatim>\<open>update_light\<close>\<close>

text \<open>
  \<^verbatim>\<open>load(path)\<close>, statement by statement: decode; convert to \<^verbatim>\<open>float32\<close> and divide by
  255 unless the array is \<^verbatim>\<open>float32\<close> already; assign \<^verbatim>\<open>self.base_image\<close>; project; assign
  \<^verbatim>\<open>self.base.data\<close>. The assignment of \<^verbatim>\<open>self.base_image\<close> comes before the projection, so
  a failing projection leaves it behind.
\<close>

definition load :: "ext \<Rightarrow> envlight \<Rightarrow> string \<Rightarrow> (error + unit) \<times> envlight" where
  "load x s path =
     (case imread x path of
        None \<Rightarrow> (Inl (Failed Imread), s)
      | Some decoded \<Rightarrow>
          let converted = (if dtype decoded \<noteq> Float32 then tmap (\<lambda>v. v / 255) (arr decoded)
                           else arr decoded);
              img = tmap (\<lambda>v. v * scale s) converted;
              s1 = s\<lparr>base_image := Some img\<rparr>
          in (case latlong_to_cubemap x img [max_res s1, max_res s1] (device s1) of
                None \<Rightarrow> (Inl (Failed Latlong_to_cubemap), s1)
              | Some cubemap \<Rightarrow> (Inr (), s1\<lparr>base := (base s1)\<lparr>data := cubemap\<rparr>\<rparr>)))"

definition gen_base_image :: "ext \<Rightarrow> envlight \<Rightarrow> (error + unit) \<times> envlight" where
  "gen_base_image x s =
     (case cubemap_to_latlong x (data (base s)) [2048, 4096] of
        None \<Rightarrow> (Inl (Failed Cubemap_to_latlong), s)
      | Some img \<Rightarrow> (Inr (), s\<lparr>base_image := Some img\<rparr>))"

text \<open>
  \<^verbatim>\<open>update_light(delta)\<close> reads \<^verbatim>\<open>self.base_image\<close> in its first statement; on an object
  that has no such attribute yet, the read raises \<^verbatim>\<open>AttributeError\<close>.
\<close>

definition update_light :: "ext \<Rightarrow> envlight \<Rightarrow> int \<Rightarrow> (error + unit) \<times> envlight" where
  "update_light x s delta =
     (case base_image s of
        None \<Rightarrow> (Inl AttributeError, s)
      | Some img \<Rightarrow>
          (case torch_roll img delta 1 of
             Inl e \<Rightarrow> (Inl e, s)
           | Inr rolled \<Rightarrow>
               let s1 = s\<lparr>base_image := Some rolled\<rparr>
               in (case latlong_to_cubemap x rolled [max_res s1, max_res s1] (device s1) of
                     None \<Rightarrow> (Inl (Failed Latlong_to_cubemap), s1)
                   | Some cubemap \<Rightarrow> (Inr (), s1\<lparr>base := (base s1)\<lparr>data := cubemap\<rparr>\<rparr>))))"

subsection \<open>\<^verbatim>\<open>build_mips\<close>\<close>

text \<open>
  The \<^verbatim>\<open>while\<close> loop of \<^verbatim>\<open>build_mips\<close>. It reads \<^verbatim>\<open>self.base.data\<close> (\<open>b\<close>) and
  \<^verbatim>\<open>self.min_res\<close> (\<open>m\<close>) and appends to \<^verbatim>\<open>self.specular\<close> (\<open>sp\<close>) in place, so an
  exception leaves the list as far as it got. Nothing in \<^verbatim>\<open>light.py\<close> bounds the number
  of iterations: whether the loop ends is up to \<^verbatim>\<open>cubemap_mip\<close>. \<open>None\<close> is the loop
  not returning.
\<close>

partial_function (option) mip_loop ::
  "ext \<Rightarrow> tensor \<Rightarrow> nat \<Rightarrow> level list \<Rightarrow> ((error + unit) \<times> level list) option" where
  "mip_loop x b m sp =
     (if sp = [] then Some (Inl IndexError, sp)
      else case shape1 (resolve b (last sp)) of
             Inl e \<Rightarrow> Some (Inl e, sp)
           | Inr r \<Rightarrow>
               if r > m
               then (case cubemap_mip x (resolve b (last sp)) of
                       None \<Rightarrow> Some (Inl (Failed Cubemap_mip), sp)
                     | Some t \<Rightarrow> mip_loop x b m (sp @ [Own t]))
               else Some (Inr (), sp))"

text \<open>
  The roughness \<^verbatim>\<open>build_mips\<close> filters level \<open>idx\<close> with, in a chain of \<open>M\<close> levels.
  \<^verbatim>\<open>idx / (len(self.specular) - 2)\<close> divides two Python integers: it raises
  \<^verbatim>\<open>ZeroDivisionError\<close> when \<open>M = 2\<close>.
\<close>

definition level_roughness :: "real \<Rightarrow> real \<Rightarrow> nat \<Rightarrow> nat \<Rightarrow> error + real" where
  "level_roughness min_r max_r M idx =
     (if int M - 2 = 0 then Inl ZeroDivisionError
      else Inr ((real idx / real_of_int (int M - 2)) * (max_r - min_r) + min_r))"

text \<open>
  The \<^verbatim>\<open>for idx in range(len(self.specular) - 1)\<close> loop, over the indices still to do.
  \<^verbatim>\<open>len(self.specular)\<close> is read again in every iteration.
\<close>

fun filter_levels ::
  "ext \<Rightarrow> tensor \<Rightarrow> real \<Rightarrow> real \<Rightarrow> real \<Rightarrow> nat list \<Rightarrow> level list \<Rightarrow> (error + unit) \<times> level list" where
  "filter_levels x b min_r max_r cutoff [] sp = (Inr (), sp)"
| "filter_levels x b min_r max_r cutoff (idx # rest) sp =
     (case level_roughness min_r max_r (length sp) idx of
        Inl e \<Rightarrow> (Inl e, sp)
      | Inr roughness \<Rightarrow>
          if length sp \<le> idx then (Inl IndexError, sp)
          else (case specular_cubemap x (resolve b (sp ! idx)) roughness cutoff of
                  None \<Rightarrow> (Inl (Failed Specular_cubemap), sp)
                | Some t \<Rightarrow> filter_levels x b min_r max_r cutoff rest (sp[idx := Own t])))"

definition default_cutoff :: real where
  "default_cutoff = 0.99"

text \<open>
  \<^verbatim>\<open>build_mips(cutoff=0.99)\<close>: start the chain at the parameter itself, downsample, derive
  the diffuse map from the smallest level, filter every level but the last, filter the last
  with roughness 1.
\<close>

definition build_mips :: "ext \<Rightarrow> envlight \<Rightarrow> real \<Rightarrow> ((error + unit) \<times> envlight) option" where
  "build_mips x s cutoff =
     (case mip_loop x (data (base s)) (min_res s) [BaseRef] of
        None \<Rightarrow> None
      | Some (Inl e, sp) \<Rightarrow> Some (Inl e, s\<lparr>specular := sp\<rparr>)
      | Some (Inr u, sp) \<Rightarrow>
          (case diffuse_cubemap x (resolve (data (base s)) (last sp)) of
             None \<Rightarrow> Some (Inl (Failed Diffuse_cubemap), s\<lparr>specular := sp\<rparr>)
           | Some d \<Rightarrow>
               (case filter_levels x (data (base s)) (min_roughness s) (max_roughness s) cutoff
                       [0 ..< length sp - 1] sp of
                  (Inl e, sp') \<Rightarrow> Some (Inl e, s\<lparr>specular := sp', diffuse := d\<rparr>)
                | (Inr u', sp') \<Rightarrow>
                    (case specular_cubemap x (resolve (data (base s)) (last sp')) 1.0 cutoff of
                       None \<Rightarrow> Some (Inl (Failed Specular_cubemap), s\<lparr>specular := sp', diffuse := d\<rparr>)
                     | Some t \<Rightarrow>
                         Some (Inr (), s\<lparr>specular := sp'[length sp' - 1 := Own t],
                                         diffuse := d\<rparr>)))))"

subsection \<open>Queries: \<^verbatim>\<open>_forward_diffuse\<close>, \<^verbatim>\<open>_forward_specular\<close>, \<^verbatim>\<open>__call__\<close>\<close>

text \<open>
  The sampling methods read the object and do not assign to it. Each returns its outcome
  and the calls of \<^verbatim>\<open>dr.texture\<close> it made, in order. \<^verbatim>\<open>l.contiguous()\<close> changes the memory
  layout only and is the identity here.
\<close>

definition forward_diffuse :: "ext \<Rightarrow> envlight \<Rightarrow> tensor \<Rightarrow> (error + tensor) \<times> tex_args list" where
  "forward_diffuse x s l =
     (let prefix = butlast (shape l)
      in case (if length prefix \<noteq> 3
               then (if shape l = [] then Inl IndexError
                     else reshape l [Some 1, Some 1, None, Some (last (shape l))])
               else Inr l) of
           Inl e \<Rightarrow> (Inl e, [])
         | Inr l' \<Rightarrow>
             (let args = \<lparr>tex = unsqueeze0 (diffuse s), uv = l', mip = [],
                          mip_level_bias = None, filter_mode = ''linear'',
                          boundary_mode = ''cube''\<rparr>
              in (case texture x args of
                    None \<Rightarrow> (Inl (Failed Texture), [args])
                  | Some light \<Rightarrow>
                      (case reshape light (map Some prefix @ [None]) of
                         Inl e \<Rightarrow> (Inl e, [args])
                       | Inr out \<Rightarrow> (Inr out, [args])))))"

text \<open>
  In \<^verbatim>\<open>_forward_specular\<close> the arguments of \<^verbatim>\<open>dr.texture\<close> are evaluated left to right
  before the call: \<^verbatim>\<open>self.specular[0]\<close> (\<^verbatim>\<open>IndexError\<close> on an empty list), then the
  remaining levels, then \<^verbatim>\<open>miplevel[..., 0]\<close>.
\<close>

definition forward_specular ::
  "ext \<Rightarrow> envlight \<Rightarrow> tensor \<Rightarrow> tensor option \<Rightarrow> (error + tensor) \<times> tex_args list" where
  "forward_specular x s l roughness =
     (let prefix = butlast (shape l)
      in case (if length prefix \<noteq> 3
               then (if shape l = [] then Inl IndexError
                     else (case reshape l [Some 1, Some 1, None, Some (last (shape l))] of
                             Inl e \<Rightarrow> Inl e
                           | Inr l' \<Rightarrow>
                               (case roughness of
                                  None \<Rightarrow> Inr (l', None)
                                | Some r \<Rightarrow>
                                    (case reshape r [Some 1, Some 1, None, Some 1] of
                                       Inl e \<Rightarrow> Inl e
                                     | Inr r' \<Rightarrow> Inr (l', Some r')))))
               else Inr (l, roughness)) of
           Inl e \<Rightarrow> (Inl e, [])
         | Inr (l', roughness') \<Rightarrow>
             (case get_mip s roughness' of
                Inl e \<Rightarrow> (Inl e, [])
              | Inr miplevel \<Rightarrow>
                  (case specular s of
                     [] \<Rightarrow> (Inl IndexError, [])
                   | lv0 # rest \<Rightarrow>
                       (case index_last0 miplevel of
                          Inl e \<Rightarrow> (Inl e, [])
                        | Inr bias \<Rightarrow>
                            (let args = \<lparr>tex = unsqueeze0 (resolve (data (base s)) lv0), uv = l',
                                         mip = map (\<lambda>m. unsqueeze0 (resolve (data (base s)) m)) rest,
                                         mip_level_bias = Some bias,
                                         filter_mode = ''linear-mipmap-linear'',
                                         boundary_mode = ''cube''\<rparr>
                             in (case texture x args of
                                   None \<Rightarrow> (Inl (Failed Texture), [args])
                                 | Some light \<Rightarrow>
                                     (case reshape light (map Some prefix @ [None]) of
                                        Inl e \<Rightarrow> (Inl e, [args])
                                      | Inr out \<Rightarrow> (Inr out, [args]))))))))"

text \<open>
  What a call of \<^verbatim>\<open>__call__\<close> leaves behind: the returned pair or the exception, the
  texture lookups made on the way, and the object.
\<close>

record call_out =
  outcome :: "error + tensor \<times> tensor"
  lookups :: "tex_args list"
  final :: envlight

definition call ::
  "ext \<Rightarrow> envlight \<Rightarrow> tensor \<Rightarrow> tensor \<Rightarrow> tensor option \<Rightarrow> call_out option" where
  "call x s shading_normal reflective roughness =
     (case (if trainable s then build_mips x s default_cutoff else Some (Inr (), s)) of
        None \<Rightarrow> None
      | Some (Inl e, s') \<Rightarrow> Some \<lparr>outcome = Inl e, lookups = [], final = s'\<rparr>
      | Some (Inr u, s') \<Rightarrow>
          (case forward_diffuse x s' shading_normal of
             (Inl e, tr) \<Rightarrow> Some \<lparr>outcome = Inl e, lookups = tr, final = s'\<rparr>
           | (Inr diffuse_light, tr) \<Rightarrow>
               (case forward_specular x s' reflective roughness of
                  (Inl e, tr') \<Rightarrow> Some \<lparr>outcome = Inl e, lookups = tr @ tr', final = s'\<rparr>
                | (Inr specular_light, tr') \<Rightarrow>
                    Some \<lparr>outcome = Inr (diffuse_light, specular_light),
                          lookups = tr @ tr', final = s'\<rparr>)))"

subsection \<open>\<^verbatim>\<open>__init__\<close>\<close>

text \<open>
  The keyword arguments of the constructor, and the identity the runtime gives the new
  \<^verbatim>\<open>torch.nn.Parameter\<close>. \<open>default_args\<close> holds the defaults of the signature.
\<close>

record init_args =
  path_arg :: "string option"
  device_arg :: "string option"
  scale_arg :: real
  min_res_arg :: nat
  max_res_arg :: nat
  min_roughness_arg :: real
  max_roughness_arg :: real
  trainable_arg :: bool
  color_preset_arg :: "real option"
  new_pid :: nat

definition default_args :: init_args where
  "default_args =
     \<lparr>path_arg = None, device_arg = None, scale_arg = 1.0, min_res_arg = 16,
      max_res_arg = 512, min_roughness_arg = 0.08, max_roughness_arg = 0.5,
      trainable_arg = False, color_preset_arg = None, new_pid = 0\<rparr>"

text \<open>
  The constructor calls \<^verbatim>\<open>create_trainable_env_rnd(self.max_res, device=self.device)\<close>:
  neither \<^verbatim>\<open>scale\<close> nor \<^verbatim>\<open>bias\<close> is passed, so both take the defaults of that function.
  \<open>init_attrs\<close> is the object after the attribute assignments, before \<^verbatim>\<open>load\<close> and
  \<^verbatim>\<open>build_mips\<close>. \<^verbatim>\<open>self.specular\<close> and \<^verbatim>\<open>self.diffuse\<close> do not exist until \<^verbatim>\<open>build_mips\<close>
  has run; the empty values stand for that and are never seen by a caller, because a
  constructor that raises returns no object.
\<close>

definition init_attrs :: "ext \<Rightarrow> init_args \<Rightarrow> envlight" where
  "init_attrs x a =
     (let dev = (case device_arg a of None \<Rightarrow> ''cuda'' | Some d \<Rightarrow> d);
          init_value =
            (case color_preset_arg a of
               Some c \<Rightarrow> create_trainable_env_fix (max_res_arg a) c
             | None \<Rightarrow> create_trainable_env_rnd x (max_res_arg a) rnd_default_scale rnd_default_bias)
      in \<lparr>device = dev, scale = scale_arg a, min_res = min_res_arg a,
          max_res = max_res_arg a, min_roughness = min_roughness_arg a,
          max_roughness = max_roughness_arg a, trainable = trainable_arg a,
          base = \<lparr>pid = new_pid a, data = init_value, requires_grad = trainable_arg a\<rparr>,
          base_image = None, specular = [], diffuse = \<lparr>shape = [], vals = []\<rparr>\<rparr>)"

definition init :: "ext \<Rightarrow> init_args \<Rightarrow> (error + envlight) option" where
  "init x a =
     (case (case path_arg a of
              None \<Rightarrow> (Inr (), init_attrs x a)
            | Some p \<Rightarrow> load x (init_attrs x a) p) of
        (Inl e, s1) \<Rightarrow> Some (Inl e)
      | (Inr u, s1) \<Rightarrow>
          (case build_mips x s1 default_cutoff of
             None \<Rightarrow> None
           | Some (Inl e, s2) \<Rightarrow> Some (Inl e)
           | Some (Inr u', s2) \<Rightarrow> Some (Inr s2)))"

subsection \<open>Sequences of method calls\<close>

text \<open>
  A client calling the mutating methods one after another, going on after an exception
  (the object stays as the exception left it). \<open>None\<close>: some call did not return.
\<close>

datatype operation = Load string | Gen_base_image | Update_light int | Build_mips real

fun invoke :: "ext \<Rightarrow> envlight \<Rightarrow> operation \<Rightarrow> ((error + unit) \<times> envlight) option" where
  "invoke x s (Load p) = Some (load x s p)"
| "invoke x s Gen_base_image = Some (gen_base_image x s)"
| "invoke x s (Update_light delta) = Some (update_light x s delta)"
| "invoke x s (Build_mips cutoff) = build_mips x s cutoff"

fun run :: "ext \<Rightarrow> envlight \<Rightarrow> operation list \<Rightarrow> envlight option" where
  "run x s [] = Some s"
| "run x s (c # cs) =
     (case invoke x s c of None \<Rightarrow> None | Some (r, s') \<Rightarrow> run x s' cs)"

section \<open>Concrete collaborators and objects\<close>

text \<open>
  A concrete instance of the collaborators, small enough to run the model on:
  \<^item> the decoder knows three files: a one-by-two \<^verbatim>\<open>float32\<close> panorama, a one-by-two
    \<^verbatim>\<open>uint8\<close> panorama, and a one-by-two \<^verbatim>\<open>uint8\<close> image without a channel axis;
  \<^item> the projector fills a cubemap of the requested size with the first value of the
    panorama, and fails on an image that is not height by width by channels;
  \<^item> the mip step halves the two face dimensions;
  \<^item> the filters and the sampler are simple arithmetic on the values they are given, so
    that results differ when their inputs do.
\<close>

definition demo_imread :: "string \<Rightarrow> ndarray option" where
  "demo_imread p =
     (if p = ''sky.hdr'' then
        Some \<lparr>dtype = Float32, arr = \<lparr>shape = [1, 2, 3], vals = [2, 4, 6, 8, 10, 12]\<rparr>\<rparr>
      else if p = ''sky.png'' then
        Some \<lparr>dtype = Uint8, arr = \<lparr>shape = [1, 2, 3], vals = [255, 0, 51, 102, 153, 204]\<rparr>\<rparr>
      else if p = ''grey.png'' then
        Some \<lparr>dtype = Uint8, arr = \<lparr>shape = [1, 2], vals = [255, 0]\<rparr>\<rparr>
      else None)"

definition demo_latlong_to_cubemap :: "tensor \<Rightarrow> nat list \<Rightarrow> string \<Rightarrow> tensor option" where
  "demo_latlong_to_cubemap img res dev =
     (if length (shape img) \<noteq> 3 \<or> vals img = [] \<or> length res \<noteq> 2 then None
      else Some \<lparr>shape = [6, res ! 0, res ! 1, 3],
                 vals = replicate (6 * (res ! 0) * (res ! 1) * 3) (hd (vals img))\<rparr>)"

definition demo_cubemap_to_latlong :: "tensor \<Rightarrow> nat list \<Rightarrow> tensor option" where
  "demo_cubemap_to_latlong c res =
     (if vals c = [] then None
      else Some \<lparr>shape = [1, 2, 3], vals = take 6 (vals c @ replicate 6 (hd (vals c)))\<rparr>)"

definition demo_cubemap_mip :: "tensor \<Rightarrow> tensor option" where
  "demo_cubemap_mip t =
     Some (t\<lparr>shape := (shape t)[1 := shape t ! 1 div 2, 2 := shape t ! 2 div 2],
             vals := take (numel t div 4) (vals t)\<rparr>)"

definition demo_diffuse_cubemap :: "tensor \<Rightarrow> tensor option" where
  "demo_diffuse_cubemap t = Some (tmap (\<lambda>v. v / 2) t)"

definition demo_specular_cubemap :: "tensor \<Rightarrow> real \<Rightarrow> real \<Rightarrow> tensor option" where
  "demo_specular_cubemap t roughness cutoff = Some (tmap (\<lambda>v. v * cutoff + roughness) t)"

definition demo_texture :: "tex_args \<Rightarrow> tensor option" where
  "demo_texture a =
     Some \<lparr>shape = shape (uv a),
           vals = map (\<lambda>d. d * hd (vals (tex a))
                            + (case mip_level_bias a of None \<Rightarrow> 0 | Some b \<Rightarrow> hd (vals b)))
                      (vals (uv a))\<rparr>"

definition demo_rand :: "nat \<Rightarrow> real list" where
  "demo_rand n = map (\<lambda>i. real i / real n) [0 ..< n]"

definition demo_ext :: ext where
  "demo_ext =
     \<lparr>imread = demo_imread, latlong_to_cubemap = demo_latlong_to_cubemap,
      cubemap_to_latlong = demo_cubemap_to_latlong, cubemap_mip = demo_cubemap_mip,
      diffuse_cubemap = demo_diffuse_cubemap, specular_cubemap = demo_specular_cubemap,
      texture = demo_texture, torch_rand = demo_rand\<rparr>"


definition one_level :: envlight where
  "one_level =
     \<lparr>device = ''cuda'', scale = 1, min_res = 1, max_res = 1, min_roughness = 0.08,
      max_roughness = 0.5, trainable = False,
      base = \<lparr>pid = 0, data = \<lparr>shape = [6, 1, 1, 3], vals = replicate 18 1\<rparr>,
              requires_grad = False\<rparr>,
      base_image = None,
      specular = [Own \<lparr>shape = [6, 1, 1, 3], vals = replicate 18 1.99\<rparr>],
      diffuse = \<lparr>shape = [6, 1, 1, 3], vals = replicate 18 0.5\<rparr>\<rparr>"


definition three_level :: envlight where
  "three_level =
     \<lparr>device = ''cuda'', scale = 1, min_res = 1, max_res = 4, min_roughness = 0.08,
      max_roughness = 0.5, trainable = False,
      base = \<lparr>pid = 0, data = \<lparr>shape = [6, 4, 4, 3], vals = replicate 288 1\<rparr>,
              requires_grad = False\<rparr>,
      base_image = None,
      specular = [Own \<lparr>shape = [6, 4, 4, 3], vals = replicate 288 1.07\<rparr>,
                  Own \<lparr>shape = [6, 2, 2, 3], vals = replicate 72 1.49\<rparr>,
                  Own \<lparr>shape = [6, 1, 1, 3], vals = replicate 18 1.99\<rparr>],
      diffuse = \<lparr>shape = [6, 1, 1, 3], vals = replicate 18 0.5\<rparr>\<rparr>"




text \<open>The three-level object after \<^verbatim>\<open>load('sky.hdr')\<close>: new base, old chain.\<close>

definition sky_loaded :: envlight where
  "sky_loaded =
     three_level\<lparr>base_image := Some \<lparr>shape = [1, 2, 3], vals = [2, 4, 6, 8, 10, 12]\<rparr>,
                 base := (base three_level)\<lparr>data := \<lparr>shape = [6, 4, 4, 3], vals = replicate 288 2\<rparr>\<rparr>\<rparr>"

text \<open>\<^verbatim>\<open>EnvLight(path='sky.hdr', min_res=1, max_res=1, color_preset=1.0)\<close>.\<close>

definition sky_args :: init_args where
  "sky_args = default_args\<lparr>path_arg := Some ''sky.hdr'', min_res_arg := 1, max_res_arg := 1,
                           color_preset_arg := Some 1\<rparr>"

definition sky_one :: envlight where
  "sky_one =
     \<lparr>device = ''cuda'', scale = 1, min_res = 1, max_res = 1, min_roughness = 0.08,
      max_roughness = 0.5, trainable = False,
      base = \<lparr>pid = 0, data = \<lparr>shape = [6, 1, 1, 3], vals = replicate 18 2\<rparr>,
              requires_grad = False\<rparr>,
      base_image = Some \<lparr>shape = [1, 2, 3], vals = [2, 4, 6, 8, 10, 12]\<rparr>,
      specular = [Own \<lparr>shape = [6, 1, 1, 3], vals = replicate 18 2.98\<rparr>],
      diffuse = \<lparr>shape = [6, 1, 1, 3], vals = replicate 18 1\<rparr>\<rparr>"

text \<open>A client session on that object, and the object it ends with.\<close>

definition sky_session :: "operation list" where
  "sky_session = [Load ''sky.png'', Update_light 1, Build_mips 0.5]"

definition sky_final :: envlight where
  "sky_final =
     sky_one\<lparr>base_image := Some \<lparr>shape = [1, 2, 3], vals = [0.4, 0.6, 0.8, 1, 0, 0.2]\<rparr>,
             base := (base sky_one)\<lparr>data := \<lparr>shape = [6, 1, 1, 3], vals = replicate 18 0.4\<rparr>\<rparr>,
             specular := [Own \<lparr>shape = [6, 1, 1, 3], vals = replicate 18 1.2\<rparr>],
             diffuse := \<lparr>shape = [6, 1, 1, 3], vals = replicate 18 0.2\<rparr>\<rparr>"

text \<open>Two query directions, and the diffuse lookup they cause on the three-level object.\<close>

definition directions :: tensor where
  "directions = \<lparr>shape = [2, 3], vals = [0, 0, 1, 1, 0, 0]\<rparr>"

definition diffuse_lookup :: tex_args where
  "diffuse_lookup =
     \<lparr>tex = \<lparr>shape = [1, 6, 1, 1, 3], vals = replicate 18 0.5\<rparr>,
      uv = \<lparr>shape = [1, 1, 2, 3], vals = [0, 0, 1, 1, 0, 0]\<rparr>,
      mip = [], mip_level_bias = None, filter_mode = ''linear'', boundary_mode = ''cube''\<rparr>"





section \<open>Contracts of the collaborators\<close>


text \<open>
  Modelled from the spec: \<^verbatim>\<open>latlong_to_cubemap\<close> is defined outside \<^verbatim>\<open>light.py\<close>. The spec
  gives its result as a cubemap, six faces of three channels, with faces of the requested
  resolution.
\<close>

definition projector_shape :: "ext \<Rightarrow> bool" where
  "projector_shape x =
     (\<forall>img r dev c. latlong_to_cubemap x img [r, r] dev = Some c \<longrightarrow> shape c = [6, r, r, 3])"


section \<open>The state of the base parameter\<close>

text \<open>
  The base parameter as the constructor called with the arguments \<open>a\<close> creates it: the
  object \<open>new_pid a\<close>, with \<^verbatim>\<open>requires_grad\<close> equal to the \<^verbatim>\<open>trainable\<close> flag, holding a
  tensor of shape \<open>(6, max_res, max_res, 3)\<close>.
\<close>

definition base_as_created :: "init_args \<Rightarrow> envlight \<Rightarrow> bool" where
  "base_as_created a s =
     (pid (base s) = new_pid a \<and> requires_grad (base s) = trainable_arg a
      \<and> trainable s = trainable_arg a \<and> max_res s = max_res_arg a
      \<and> shape (data (base s)) = [6, max_res_arg a, max_res_arg a, 3])"

section \<open>Evaluation rules\<close>

lemmas demo_defs = demo_ext_def demo_imread_def demo_latlong_to_cubemap_def
  demo_cubemap_to_latlong_def demo_cubemap_mip_def demo_diffuse_cubemap_def
  demo_specular_cubemap_def demo_texture_def demo_rand_def

lemmas eval_defs = init_def init_attrs_def default_args_def create_trainable_env_fix_def
  create_trainable_env_rnd_def rnd_default_scale_def rnd_default_bias_def build_mips_def
  mip_loop.simps shape1_def tmap_def numel_def default_cutoff_def level_roughness_def
  load_def update_light_def gen_base_image_def

section \<open>The roughness-to-level mapping\<close>















section \<open>The downsampling loop\<close>




section \<open>The filtering loop\<close>


lemma filter_levels_two:
  assumes "length sp = 2" "idxs \<noteq> []"
  shows "filter_levels x b mn mx c idxs sp = (Inl ZeroDivisionError, sp)"
  using assms by (cases idxs) (simp_all add: level_roughness_def)

lemma filter_levels_no_zero_division:
  assumes "length sp \<noteq> 2"
  shows "fst (filter_levels x b mn mx c idxs sp) \<noteq> Inl ZeroDivisionError"
  using assms
  by (induction idxs arbitrary: sp) (auto simp: level_roughness_def split: sum.splits option.splits)

lemma filter_levels_result:
  assumes "filter_levels x b mn mx c idxs sp = (Inr (), sp')" "distinct idxs"
  shows "length sp' = length sp
       \<and> (\<forall>i < length sp.
             (i \<in> set idxs \<longrightarrow>
                (\<exists>t. sp' ! i = Own t
                   \<and> specular_cubemap x (resolve b (sp ! i))
                        (real i / real_of_int (int (length sp) - 2) * (mx - mn) + mn) c = Some t))
           \<and> (i \<notin> set idxs \<longrightarrow> sp' ! i = sp ! i))"
  using assms
proof (induction idxs arbitrary: sp)
  case Nil
  then show ?case by simp
next
  case (Cons idx rest)
  from Cons.prems(1) obtain t where nz: "int (length sp) - 2 \<noteq> 0" and inr: "idx < length sp"
    and t: "specular_cubemap x (resolve b (sp ! idx))
              (real idx / real_of_int (int (length sp) - 2) * (mx - mn) + mn) c = Some t"
    and rec: "filter_levels x b mn mx c rest (sp[idx := Own t]) = (Inr (), sp')"
    by (auto simp: level_roughness_def split: if_splits option.splits)
  have d: "distinct rest" and ni: "idx \<notin> set rest" using Cons.prems(2) by simp_all
  note ih = Cons.IH[OF rec d]
  have len: "length sp' = length sp" using ih by simp
  show ?case
  proof (intro conjI allI impI)
    show "length sp' = length sp" by (rule len)
  next
    fix i assume i: "i < length sp" and m: "i \<in> set (idx # rest)"
    show "\<exists>t. sp' ! i = Own t \<and> specular_cubemap x (resolve b (sp ! i))
                 (real i / real_of_int (int (length sp) - 2) * (mx - mn) + mn) c = Some t"
    proof (cases "i = idx")
      case True
      then have "sp' ! i = (sp[idx := Own t]) ! i" using ih i ni by simp
      then show ?thesis using True t i by simp
    next
      case False
      then have r: "i \<in> set rest" using m by simp
      have "i < length (sp[idx := Own t])" using i by simp
      with ih r have "\<exists>ta. sp' ! i = Own ta
          \<and> specular_cubemap x (resolve b (sp[idx := Own t] ! i))
                (real i / real_of_int (int (length (sp[idx := Own t])) - 2) * (mx - mn) + mn) c = Some ta"
        by blast
      then show ?thesis using False by simp
    qed
  next
    fix i assume i: "i < length sp" and m: "i \<notin> set (idx # rest)"
    then have "i \<notin> set rest" and ne: "i \<noteq> idx" by simp_all
    moreover have "i < length (sp[idx := Own t])" using i by simp
    ultimately have "sp' ! i = sp[idx := Own t] ! i" using ih by blast
    then show "sp' ! i = sp ! i" using ne by simp
  qed
qed

lemma filter_levels_succeeds:
  assumes "\<forall>t r. specular_cubemap x t r c \<noteq> None" "length sp \<noteq> 2" "\<forall>i \<in> set idxs. i < length sp"
  shows "fst (filter_levels x b mn mx c idxs sp) = Inr ()"
  using assms
proof (induction idxs arbitrary: sp)
  case Nil
  then show ?case by simp
next
  case (Cons idx rest)
  obtain t where t: "specular_cubemap x (resolve b (sp ! idx))
              (real idx / real_of_int (int (length sp) - 2) * (mx - mn) + mn) c = Some t"
    using Cons.prems(1) by fastforce
  have "fst (filter_levels x b mn mx c rest (sp[idx := Own t])) = Inr ()"
    using Cons.prems by (intro Cons.IH) simp_all
  then show ?case using t Cons.prems by (simp add: level_roughness_def)
qed


section \<open>\<^verbatim>\<open>build_mips\<close> as a whole\<close>








lemma mip_loop_extends:
  assumes "mip_loop x b m sp = Some y"
  shows "\<exists>new. snd y = sp @ new \<and> BaseRef \<notin> set new"
proof (rule mip_loop.raw_induct[where P = "\<lambda>x b m sp y. \<exists>new. snd y = sp @ new \<and> BaseRef \<notin> set new"
      and xa = "(((x, b), m), sp)" and y = y, unfolded prod.case], goal_cases)
  case (1 f x b m sp y)
  show ?case
  proof (cases "sp = []")
    case True
    then show ?thesis using 1(2) by auto
  next
    case False
    show ?thesis
    proof (cases "shape1 (resolve b (last sp))")
      case (Inl e)
      then show ?thesis using 1(2) False by auto
    next
      case (Inr r)
      show ?thesis
      proof (cases "m < r")
        case lt: True
        show ?thesis
        proof (cases "cubemap_mip x (resolve b (last sp))")
          case None
          then show ?thesis using 1(2) False Inr lt by auto
        next
          case (Some t)
          then have "f x b m (sp @ [Own t]) = Some y" using 1(2) False Inr lt by simp
          then obtain new where "snd y = (sp @ [Own t]) @ new" "BaseRef \<notin> set new"
            using 1(1) by blast
          then have "snd y = sp @ (Own t # new) \<and> BaseRef \<notin> set (Own t # new)" by simp
          then show ?thesis by blast
        qed
      next
        case False
        then show ?thesis using 1(2) \<open>sp \<noteq> []\<close> Inr by auto
      qed
    qed
  qed
next
  case 2
  show ?case by (rule assms)
qed

lemma build_mips_InrD:
  assumes "build_mips x s c = Some (Inr (), s')"
  shows "\<exists>sp d sp' t.
           mip_loop x (data (base s)) (min_res s) [BaseRef] = Some (Inr (), sp)
         \<and> diffuse_cubemap x (resolve (data (base s)) (last sp)) = Some d
         \<and> filter_levels x (data (base s)) (min_roughness s) (max_roughness s) c
              [0 ..< length sp - 1] sp = (Inr (), sp')
         \<and> specular_cubemap x (resolve (data (base s)) (last sp')) 1 c = Some t
         \<and> s' = s\<lparr>specular := sp'[length sp' - 1 := Own t], diffuse := d\<rparr>"
  using assms unfolding build_mips_def
  by (auto split: option.splits sum.splits prod.splits)

lemma build_mips_no_zero_division:
  assumes "mip_loop x (data (base s)) (min_res s) [BaseRef] = Some (Inr (), sp)"
    and "length sp \<noteq> 2" and "build_mips x s c = Some (r, s')"
  shows "r \<noteq> Inl ZeroDivisionError"
proof -
  have nz: "fst (filter_levels x (data (base s)) (min_roughness s) (max_roughness s) c
                 [0 ..< length sp - 1] sp) \<noteq> Inl ZeroDivisionError"
    using assms(2) by (rule filter_levels_no_zero_division)
  show ?thesis
    using assms(1,3) nz unfolding build_mips_def
    by (auto split: option.splits sum.splits prod.splits)
qed

lemma build_mips_succeeds:
  assumes "mip_loop x (data (base s)) (min_res s) [BaseRef] = Some (Inr (), sp)"
    and "length sp \<noteq> 2"
    and "\<forall>t. diffuse_cubemap x t \<noteq> None" and "\<forall>t r. specular_cubemap x t r c \<noteq> None"
  shows "\<exists>s'. build_mips x s c = Some (Inr (), s')"
proof -
  obtain d where d: "diffuse_cubemap x (resolve (data (base s)) (last sp)) = Some d"
    using assms(3) by fastforce
  have "fst (filter_levels x (data (base s)) (min_roughness s) (max_roughness s) c
                 [0 ..< length sp - 1] sp) = Inr ()"
    using assms(4,2) by (intro filter_levels_succeeds) auto
  then obtain sp' where f: "filter_levels x (data (base s)) (min_roughness s) (max_roughness s) c
                 [0 ..< length sp - 1] sp = (Inr (), sp')"
    by (metis prod.collapse)
  obtain t where t: "specular_cubemap x (resolve (data (base s)) (last sp')) 1 c = Some t"
    using assms(4) by fastforce
  show ?thesis using assms(1) d f t by (simp add: build_mips_def)
qed

lemma build_mips_levels:
  assumes "mip_loop x (data (base s)) (min_res s) [BaseRef] = Some (Inr (), sp)"
    and "build_mips x s c = Some (Inr (), s')"
  shows "length (specular s') = length sp
       \<and> (\<forall>idx < length sp - 1. \<exists>t. specular s' ! idx = Own t
             \<and> specular_cubemap x (resolve (data (base s)) (sp ! idx))
                  (real idx / real_of_int (int (length sp) - 2)
                     * (max_roughness s - min_roughness s) + min_roughness s) c = Some t)
       \<and> (\<exists>t. specular s' ! (length sp - 1) = Own t
             \<and> specular_cubemap x (resolve (data (base s)) (sp ! (length sp - 1))) 1 c = Some t)"
proof -
  obtain sp0 d sp' t where
    l: "mip_loop x (data (base s)) (min_res s) [BaseRef] = Some (Inr (), sp0)"
    and f: "filter_levels x (data (base s)) (min_roughness s) (max_roughness s) c
              [0 ..< length sp0 - 1] sp0 = (Inr (), sp')"
    and t: "specular_cubemap x (resolve (data (base s)) (last sp')) 1 c = Some t"
    and s': "s' = s\<lparr>specular := sp'[length sp' - 1 := Own t], diffuse := d\<rparr>"
    using build_mips_InrD[OF assms(2)] by blast
  have eq: "sp0 = sp" using l assms(1) by simp
  obtain new where "sp = [BaseRef] @ new" using mip_loop_extends[OF assms(1)] by auto
  then have ne: "sp \<noteq> []" by simp
  note fr = filter_levels_result[OF f[unfolded eq]]
  have len: "length sp' = length sp" using fr by simp
  have ne': "sp' \<noteq> []" using len ne by auto
  have lastk: "sp' ! (length sp - 1) = sp ! (length sp - 1)"
    using fr ne by simp
  have last': "last sp' = sp ! (length sp - 1)"
    using lastk ne' len by (simp add: last_conv_nth)
  have a: "length (specular s') = length sp" using s' len by simp
  have b: "\<exists>t'. specular s' ! idx = Own t'
             \<and> specular_cubemap x (resolve (data (base s)) (sp ! idx))
                  (real idx / real_of_int (int (length sp) - 2)
                     * (max_roughness s - min_roughness s) + min_roughness s) c = Some t'"
    if "idx < length sp - 1" for idx
  proof -
    have i: "idx < length sp" and m: "idx \<in> set [0 ..< length sp - 1]" using that by simp_all
    have "specular s' ! idx = sp' ! idx" using s' that len by simp
    then show ?thesis using fr i m by simp
  qed
  have c: "\<exists>t'. specular s' ! (length sp - 1) = Own t'
             \<and> specular_cubemap x (resolve (data (base s)) (sp ! (length sp - 1))) 1 c = Some t'"
    using s' len ne t last' by simp
  show ?thesis using a b c by blast
qed


lemma build_mips_two_levels:
  assumes "mip_loop x (data (base s)) (min_res s) [BaseRef] = Some (Inr (), sp)"
    and "length sp = 2" and "diffuse_cubemap x (resolve (data (base s)) (last sp)) = Some d"
  shows "build_mips x s c = Some (Inl ZeroDivisionError, s\<lparr>specular := sp, diffuse := d\<rparr>)"
proof -
  have "filter_levels x (data (base s)) (min_roughness s) (max_roughness s) c [0 ..< length sp - 1] sp
        = (Inl ZeroDivisionError, sp)"
    using assms(2) by (intro filter_levels_two) simp_all
  then show ?thesis using assms(1,3) by (simp add: build_mips_def)
qed

lemma build_mips_one_level:
  assumes "mip_loop x (data (base s)) (min_res s) [BaseRef] = Some (Inr (), sp)"
    and "length sp = 1" and "diffuse_cubemap x (data (base s)) = Some d"
    and "specular_cubemap x (data (base s)) 1 c = Some t"
  shows "build_mips x s c = Some (Inr (), s\<lparr>specular := [Own t], diffuse := d\<rparr>)"
proof -
  obtain new where "sp = [BaseRef] @ new" using mip_loop_extends[OF assms(1)] by auto
  then have sp: "sp = [BaseRef]" using assms(2) by simp
  show ?thesis using assms(1,3,4) unfolding sp by (simp add: build_mips_def)
qed

text \<open>
  C4 (as amended). Let the \<^verbatim>\<open>while\<close> loop of \<^verbatim>\<open>build_mips\<close> have produced \<open>M\<close> levels.
  \<^item> \<open>M \<ge> 3\<close>: the divisor \<open>M - 2\<close> is not zero, \<^verbatim>\<open>build_mips\<close> never raises
    \<^verbatim>\<open>ZeroDivisionError\<close>, it returns normally when the filters do, and then level
    \<open>idx < M - 1\<close> is the specular filter of the downsampled level at roughness
    \<open>idx / (M - 2) * (max_roughness - min_roughness) + min_roughness\<close> and the last level
    is the filter at roughness 1.
  \<^item> \<open>M = 2\<close>: once the diffuse map is stored, the first iteration raises
    \<^verbatim>\<open>ZeroDivisionError\<close>, leaving the unfiltered chain in \<^verbatim>\<open>self.specular\<close>.
  \<^item> \<open>M = 1\<close>: the filtering loop has no iteration and \<^verbatim>\<open>build_mips\<close> returns normally,
    with the single level filtered at roughness 1.
\<close>

theorem build_mips_roughness_levels:
  assumes "mip_loop x (data (base s)) (min_res s) [BaseRef] = Some (Inr (), sp)"
  shows "(3 \<le> length sp \<longrightarrow>
            int (length sp) - 2 \<noteq> 0
          \<and> (\<forall>r s'. build_mips x s c = Some (r, s') \<longrightarrow> r \<noteq> Inl ZeroDivisionError)
          \<and> ((\<forall>t. diffuse_cubemap x t \<noteq> None) \<and> (\<forall>t r. specular_cubemap x t r c \<noteq> None) \<longrightarrow>
                (\<exists>s'. build_mips x s c = Some (Inr (), s')))
          \<and> (\<forall>s'. build_mips x s c = Some (Inr (), s') \<longrightarrow>
                length (specular s') = length sp
              \<and> (\<forall>idx < length sp - 1. \<exists>t. specular s' ! idx = Own t
                    \<and> specular_cubemap x (resolve (data (base s)) (sp ! idx))
                         (real idx / real_of_int (int (length sp) - 2)
                            * (max_roughness s - min_roughness s) + min_roughness s) c = Some t)
              \<and> (\<exists>t. specular s' ! (length sp - 1) = Own t
                    \<and> specular_cubemap x (resolve (data (base s)) (sp ! (length sp - 1))) 1 c
                        = Some t)))
       \<and> (length sp = 2 \<longrightarrow>
            (\<forall>d. diffuse_cubemap x (resolve (data (base s)) (last sp)) = Some d \<longrightarrow>
                 build_mips x s c
                   = Some (Inl ZeroDivisionError, s\<lparr>specular := sp, diffuse := d\<rparr>)))
       \<and> (length sp = 1 \<longrightarrow>
            (\<forall>d t. diffuse_cubemap x (data (base s)) = Some d \<longrightarrow>
                   specular_cubemap x (data (base s)) 1 c = Some t \<longrightarrow>
                   build_mips x s c = Some (Inr (), s\<lparr>specular := [Own t], diffuse := d\<rparr>)))"
proof (intro conjI impI allI)
  assume "3 \<le> length sp"
  then show "int (length sp) - 2 \<noteq> 0" by simp
next
  fix r s'
  assume "3 \<le> length sp" and "build_mips x s c = Some (r, s')"
  then show "r \<noteq> Inl ZeroDivisionError"
    using build_mips_no_zero_division[OF assms] by auto
next
  assume "3 \<le> length sp"
    and "(\<forall>t. diffuse_cubemap x t \<noteq> None) \<and> (\<forall>t r. specular_cubemap x t r c \<noteq> None)"
  then show "\<exists>s'. build_mips x s c = Some (Inr (), s')"
    using build_mips_succeeds[OF assms] by auto
next
  fix s'
  assume b: "build_mips x s c = Some (Inr (), s')"
  show "length (specular s') = length sp"
    using build_mips_levels[OF assms b] by blast
next
  fix s' idx
  assume b: "build_mips x s c = Some (Inr (), s')" and "idx < length sp - 1"
  then show "\<exists>t. specular s' ! idx = Own t
                \<and> specular_cubemap x (resolve (data (base s)) (sp ! idx))
                     (real idx / real_of_int (int (length sp) - 2)
                        * (max_roughness s - min_roughness s) + min_roughness s) c = Some t"
    using build_mips_levels[OF assms b] by blast
next
  fix s'
  assume b: "build_mips x s c = Some (Inr (), s')"
  show "\<exists>t. specular s' ! (length sp - 1) = Own t
           \<and> specular_cubemap x (resolve (data (base s)) (sp ! (length sp - 1))) 1 c = Some t"
    using build_mips_levels[OF assms b] by blast
next
  fix d
  assume "length sp = 2" and "diffuse_cubemap x (resolve (data (base s)) (last sp)) = Some d"
  then show "build_mips x s c = Some (Inl ZeroDivisionError, s\<lparr>specular := sp, diffuse := d\<rparr>)"
    by (rule build_mips_two_levels[OF assms])
next
  fix d t
  assume "length sp = 1" and "diffuse_cubemap x (data (base s)) = Some d"
    and "specular_cubemap x (data (base s)) 1 c = Some t"
  then show "build_mips x s c = Some (Inr (), s\<lparr>specular := [Own t], diffuse := d\<rparr>)"
    by (rule build_mips_one_level[OF assms])
qed


theorem build_mips_roughness_levels_witness:
  "(mip_loop demo_ext (data (base three_level)) (min_res three_level) [BaseRef]
      = Some (Inr (), [BaseRef, Own \<lparr>shape = [6, 2, 2, 3], vals = replicate 72 1\<rparr>,
                       Own \<lparr>shape = [6, 1, 1, 3], vals = replicate 18 1\<rparr>])
    \<and> (\<exists>s'. build_mips demo_ext three_level default_cutoff = Some (Inr (), s')))
   \<and> (mip_loop demo_ext (data (base (three_level\<lparr>min_res := 2\<rparr>))) (min_res (three_level\<lparr>min_res := 2\<rparr>))
        [BaseRef]
      = Some (Inr (), [BaseRef, Own \<lparr>shape = [6, 2, 2, 3], vals = replicate 72 1\<rparr>])
    \<and> build_mips demo_ext (three_level\<lparr>min_res := 2\<rparr>) default_cutoff
      = Some (Inl ZeroDivisionError,
              three_level\<lparr>min_res := 2,
                specular := [BaseRef, Own \<lparr>shape = [6, 2, 2, 3], vals = replicate 72 1\<rparr>],
                diffuse := \<lparr>shape = [6, 2, 2, 3], vals = replicate 72 0.5\<rparr>\<rparr>))
   \<and> (mip_loop demo_ext (data (base (three_level\<lparr>min_res := 4\<rparr>))) (min_res (three_level\<lparr>min_res := 4\<rparr>))
        [BaseRef]
      = Some (Inr (), [BaseRef])
    \<and> build_mips demo_ext (three_level\<lparr>min_res := 4\<rparr>) default_cutoff
      = Some (Inr (),
              three_level\<lparr>min_res := 4,
                specular := [Own \<lparr>shape = [6, 4, 4, 3], vals = replicate 288 1.99\<rparr>],
                diffuse := \<lparr>shape = [6, 4, 4, 3], vals = replicate 288 0.5\<rparr>\<rparr>))"
proof -
  let ?c3 = "[BaseRef, Own \<lparr>shape = [6, 2, 2, 3], vals = replicate 72 1\<rparr>,
              Own \<lparr>shape = [6, 1, 1, 3], vals = replicate 18 1\<rparr>]"
  let ?c2 = "[BaseRef, Own \<lparr>shape = [6, 2, 2, 3], vals = replicate 72 1\<rparr>]"
  have l3: "mip_loop demo_ext (data (base three_level)) (min_res three_level) [BaseRef]
              = Some (Inr (), ?c3)"
    by (simp add: three_level_def mip_loop.simps shape1_def demo_defs numel_def)
  have l2: "mip_loop demo_ext (data (base (three_level\<lparr>min_res := 2\<rparr>)))
              (min_res (three_level\<lparr>min_res := 2\<rparr>)) [BaseRef] = Some (Inr (), ?c2)"
    by (simp add: three_level_def mip_loop.simps shape1_def demo_defs numel_def)
  have l1: "mip_loop demo_ext (data (base (three_level\<lparr>min_res := 4\<rparr>)))
              (min_res (three_level\<lparr>min_res := 4\<rparr>)) [BaseRef] = Some (Inr (), [BaseRef])"
    by (simp add: three_level_def mip_loop.simps shape1_def demo_defs numel_def)
  have tot: "(\<forall>t. diffuse_cubemap demo_ext t \<noteq> None)
           \<and> (\<forall>t r. specular_cubemap demo_ext t r default_cutoff \<noteq> None)"
    by (simp add: demo_defs)
  have p3: "\<exists>s'. build_mips demo_ext three_level default_cutoff = Some (Inr (), s')"
    using build_mips_roughness_levels[OF l3, of default_cutoff] tot by simp
  have p2: "build_mips demo_ext (three_level\<lparr>min_res := 2\<rparr>) default_cutoff
      = Some (Inl ZeroDivisionError,
              three_level\<lparr>min_res := 2, specular := ?c2,
                diffuse := \<lparr>shape = [6, 2, 2, 3], vals = replicate 72 0.5\<rparr>\<rparr>)"
    using build_mips_roughness_levels[OF l2, of default_cutoff]
    by (simp add: three_level_def demo_defs tmap_def)
  have p1: "build_mips demo_ext (three_level\<lparr>min_res := 4\<rparr>) default_cutoff
      = Some (Inr (),
              three_level\<lparr>min_res := 4,
                specular := [Own \<lparr>shape = [6, 4, 4, 3], vals = replicate 288 1.99\<rparr>],
                diffuse := \<lparr>shape = [6, 4, 4, 3], vals = replicate 288 0.5\<rparr>\<rparr>)"
    using build_mips_roughness_levels[OF l1, of default_cutoff]
    by (simp add: three_level_def demo_defs tmap_def default_cutoff_def)
  show ?thesis using l3 l2 l1 p3 p2 p1 by blast
qed

theorem build_mips_short_chain_counterexample:
  "mip_loop demo_ext (data (base one_level)) (min_res one_level) [BaseRef] = Some (Inr (), [BaseRef])
   \<and> build_mips demo_ext one_level default_cutoff = Some (Inr (), one_level)
   \<and> length (specular one_level) < 3"
  by (simp add: eval_defs demo_defs one_level_def)

section \<open>The initial base\<close>

lemma build_mips_frame:
  assumes "build_mips x s c = Some (r, s')"
  shows "\<exists>sp d. s' = s\<lparr>specular := sp, diffuse := d\<rparr>"
proof -
  have "\<exists>sp d. s' = s\<lparr>specular := sp, diffuse := d\<rparr>"
    if "s' = s\<lparr>specular := sp\<rparr>" for sp
  proof -
    have "s' = s\<lparr>specular := sp, diffuse := diffuse s\<rparr>" using that by simp
    then show ?thesis by blast
  qed
  then show ?thesis
    using assms unfolding build_mips_def
    by (auto split: option.splits sum.splits prod.splits)
qed

lemma build_mips_base: "build_mips x s c = Some (r, s') \<Longrightarrow> base s' = base s"
  using build_mips_frame[of x s c r s'] by auto









section \<open>Rebuilding is a function of the base\<close>

lemma build_mips_ignores_derived:
  assumes "build_mips x s c = Some (Inr (), s')"
  shows "build_mips x (s\<lparr>specular := sp0, diffuse := d0\<rparr>) c = Some (Inr (), s')"
proof -
  obtain sp d sp' t where
    "mip_loop x (data (base s)) (min_res s) [BaseRef] = Some (Inr (), sp)"
    "diffuse_cubemap x (resolve (data (base s)) (last sp)) = Some d"
    "filter_levels x (data (base s)) (min_roughness s) (max_roughness s) c
        [0 ..< length sp - 1] sp = (Inr (), sp')"
    "specular_cubemap x (resolve (data (base s)) (last sp')) 1 c = Some t"
    "s' = s\<lparr>specular := sp'[length sp' - 1 := Own t], diffuse := d\<rparr>"
    using build_mips_InrD[OF assms] by blast
  then show ?thesis by (simp add: build_mips_def)
qed

lemma build_mips_idem:
  assumes "build_mips x s c = Some (Inr (), s')"
  shows "build_mips x s' c = Some (Inr (), s')"
proof -
  obtain sp d where "s' = s\<lparr>specular := sp, diffuse := d\<rparr>"
    using build_mips_frame[OF assms] by blast
  then show ?thesis using build_mips_ignores_derived[OF assms] by simp
qed

section \<open>\<^verbatim>\<open>load\<close>\<close>

lemma load_derived: "specular (snd (load x s p)) = specular s \<and> diffuse (snd (load x s p)) = diffuse s"
  by (simp add: load_def Let_def split: option.splits)

lemma init_path:
  assumes "init x a = Some (Inr s1)" "path_arg a = Some p"
  shows "\<exists>s0. load x (init_attrs x a) p = (Inr (), s0)
            \<and> build_mips x s0 default_cutoff = Some (Inr (), s1)"
  using assms by (auto simp: init_def split: option.splits sum.splits prod.splits)

text \<open>
  C5 (as amended). \<^verbatim>\<open>load\<close> leaves \<^verbatim>\<open>self.specular\<close> and \<^verbatim>\<open>self.diffuse\<close> as they were: it
  does not rebuild. The derived state reflects the loaded base on return from the
  constructor, which calls \<^verbatim>\<open>build_mips\<close> right after \<^verbatim>\<open>load\<close>: the object the constructor
  returns is the \<^verbatim>\<open>build_mips\<close> of the loaded object, and rebuilding it again changes
  nothing.
\<close>

theorem load_keeps_derived_state:
  "specular (snd (load x s p)) = specular s \<and> diffuse (snd (load x s p)) = diffuse s
   \<and> (init x a = Some (Inr s1) \<and> path_arg a = Some p \<longrightarrow>
        (\<exists>s0. load x (init_attrs x a) p = (Inr (), s0)
             \<and> build_mips x s0 default_cutoff = Some (Inr (), s1) \<and> base s1 = base s0)
        \<and> build_mips x s1 default_cutoff = Some (Inr (), s1))"
proof (intro conjI impI)
  show "specular (snd (load x s p)) = specular s" using load_derived by blast
  show "diffuse (snd (load x s p)) = diffuse s" using load_derived by blast
next
  assume h: "init x a = Some (Inr s1) \<and> path_arg a = Some p"
  then obtain s0 where l: "load x (init_attrs x a) p = (Inr (), s0)"
    and b: "build_mips x s0 default_cutoff = Some (Inr (), s1)"
    using init_path by blast
  have "base s1 = base s0" using build_mips_base[OF b] .
  then show "\<exists>s0. load x (init_attrs x a) p = (Inr (), s0)
             \<and> build_mips x s0 default_cutoff = Some (Inr (), s1) \<and> base s1 = base s0"
    using l b by blast
  show "build_mips x s1 default_cutoff = Some (Inr (), s1)"
    using build_mips_idem[OF b] .
qed


lemma sky_init: "init demo_ext sky_args = Some (Inr sky_one)"
  by (simp add: eval_defs demo_defs sky_args_def sky_one_def)

lemma sky_load: "load demo_ext three_level ''sky.hdr'' = (Inr (), sky_loaded)"
  by (simp add: eval_defs demo_defs sky_loaded_def three_level_def)

theorem load_keeps_derived_state_witness:
  "init demo_ext sky_args = Some (Inr sky_one) \<and> path_arg sky_args = Some ''sky.hdr''
   \<and> build_mips demo_ext sky_one default_cutoff = Some (Inr (), sky_one)
   \<and> specular (snd (load demo_ext three_level ''sky.hdr'')) = specular three_level
   \<and> diffuse (snd (load demo_ext three_level ''sky.hdr'')) = diffuse three_level"
proof -
  have p: "path_arg sky_args = Some ''sky.hdr''"
    by (simp add: sky_args_def default_args_def)
  show ?thesis
    using load_keeps_derived_state[of demo_ext three_level "''sky.hdr''" sky_args sky_one]
      sky_init p by simp
qed

theorem load_stale_chain_counterexample:
  "load demo_ext three_level ''sky.hdr'' = (Inr (), sky_loaded)
   \<and> data (base sky_loaded) \<noteq> data (base three_level)
   \<and> specular sky_loaded = specular three_level \<and> diffuse sky_loaded = diffuse three_level
   \<and> build_mips demo_ext sky_loaded default_cutoff \<noteq> Some (Inr (), sky_loaded)"
proof -
  have a: "data (base sky_loaded) \<noteq> data (base three_level)"
    by (simp add: sky_loaded_def three_level_def)
  have b: "specular sky_loaded = specular three_level \<and> diffuse sky_loaded = diffuse three_level"
    by (simp add: sky_loaded_def)
  have c: "build_mips demo_ext sky_loaded default_cutoff \<noteq> Some (Inr (), sky_loaded)"
    by (simp add: eval_defs demo_defs sky_loaded_def three_level_def upt_rec)
  show ?thesis using sky_load a b c by simp
qed

section \<open>A failing \<^verbatim>\<open>load\<close>\<close>

text \<open>
  C6 (as amended). When \<^verbatim>\<open>load\<close> raises, the base, the mip chain and the diffuse map are
  untouched. The cached \<^verbatim>\<open>base_image\<close> is untouched only when the decoder failed; when
  the projection fails, \<^verbatim>\<open>base_image\<close> already holds the newly decoded image (converted
  and scaled), and nothing restores the previous one.
\<close>

theorem load_failure_state:
  "fst (load x s p) = Inl e \<longrightarrow>
     (imread x p = None \<longrightarrow> e = Failed Imread \<and> snd (load x s p) = s)
   \<and> (\<forall>d. imread x p = Some d \<longrightarrow>
          e = Failed Latlong_to_cubemap
        \<and> snd (load x s p)
            = s\<lparr>base_image :=
                  Some (tmap (\<lambda>v. v * scale s)
                          (if dtype d \<noteq> Float32 then tmap (\<lambda>v. v / 255) (arr d) else arr d))\<rparr>)
   \<and> base (snd (load x s p)) = base s
   \<and> specular (snd (load x s p)) = specular s
   \<and> diffuse (snd (load x s p)) = diffuse s"
proof (cases "imread x p")
  case None
  then show ?thesis by (simp add: load_def)
next
  case (Some d)
  let ?img = "tmap (\<lambda>v. v * scale s)
                (if dtype d \<noteq> Float32 then tmap (\<lambda>v. v / 255) (arr d) else arr d)"
  show ?thesis
  proof (cases "latlong_to_cubemap x ?img [max_res s, max_res s] (device s)")
    case None
    then show ?thesis using Some by (simp add: load_def Let_def)
  next
    case (Some c)
    then show ?thesis using \<open>imread x p = Some d\<close> by (simp add: load_def Let_def)
  qed
qed

theorem load_failure_state_witness:
  "fst (load demo_ext three_level ''missing.hdr'') = Inl (Failed Imread)
   \<and> imread demo_ext ''missing.hdr'' = None
   \<and> snd (load demo_ext three_level ''missing.hdr'') = three_level
   \<and> fst (load demo_ext three_level ''grey.png'') = Inl (Failed Latlong_to_cubemap)
   \<and> imread demo_ext ''grey.png'' = Some \<lparr>dtype = Uint8, arr = \<lparr>shape = [1, 2], vals = [255, 0]\<rparr>\<rparr>
   \<and> snd (load demo_ext three_level ''grey.png'')
       = three_level\<lparr>base_image := Some \<lparr>shape = [1, 2], vals = [1, 0]\<rparr>\<rparr>
   \<and> base (snd (load demo_ext three_level ''grey.png'')) = base three_level"
proof -
  have f1: "fst (load demo_ext three_level ''missing.hdr'') = Inl (Failed Imread)"
    and r1: "imread demo_ext ''missing.hdr'' = None"
    by (simp_all add: load_def demo_defs)
  have f2: "fst (load demo_ext three_level ''grey.png'') = Inl (Failed Latlong_to_cubemap)"
    and r2: "imread demo_ext ''grey.png''
               = Some \<lparr>dtype = Uint8, arr = \<lparr>shape = [1, 2], vals = [255, 0]\<rparr>\<rparr>"
    by (simp_all add: load_def demo_defs tmap_def)
  have sc: "scale three_level = 1" by (simp add: three_level_def)
  show ?thesis
    using load_failure_state[of demo_ext three_level "''missing.hdr''" "Failed Imread"]
      load_failure_state[of demo_ext three_level "''grey.png''" "Failed Latlong_to_cubemap"]
      f1 r1 f2 r2 sc
    by (simp add: tmap_def)
qed

theorem load_not_atomic_counterexample:
  "fst (load demo_ext three_level ''grey.png'') = Inl (Failed Latlong_to_cubemap)
   \<and> base_image three_level = None
   \<and> base_image (snd (load demo_ext three_level ''grey.png''))
       = Some \<lparr>shape = [1, 2], vals = [1, 0]\<rparr>
   \<and> snd (load demo_ext three_level ''grey.png'') \<noteq> three_level"
  by (simp add: load_def demo_defs tmap_def three_level_def)

section \<open>\<^verbatim>\<open>update_light\<close>\<close>












section \<open>The base parameter\<close>

lemma init_attrs_created: "base_as_created a (init_attrs x a)"
  by (cases "color_preset_arg a")
     (simp_all add: base_as_created_def init_attrs_def create_trainable_env_fix_def
        create_trainable_env_rnd_def tmap_def)

lemma load_created:
  assumes "projector_shape x" "base_as_created a s"
  shows "base_as_created a (snd (load x s p))"
proof (cases "imread x p")
  case None
  then show ?thesis using assms(2) by (simp add: load_def)
next
  case (Some d)
  let ?img = "tmap (\<lambda>v. v * scale s)
                (if dtype d \<noteq> Float32 then tmap (\<lambda>v. v / 255) (arr d) else arr d)"
  show ?thesis
  proof (cases "latlong_to_cubemap x ?img [max_res s, max_res s] (device s)")
    case None
    then show ?thesis using Some assms(2) by (simp add: load_def Let_def base_as_created_def)
  next
    case c: (Some c)
    then have "shape c = [6, max_res s, max_res s, 3]"
      using assms(1) unfolding projector_shape_def by blast
    then show ?thesis using Some c assms(2) by (simp add: load_def Let_def base_as_created_def)
  qed
qed

lemma update_light_created:
  assumes "projector_shape x" "base_as_created a s"
  shows "base_as_created a (snd (update_light x s delta))"
proof (cases "base_image s")
  case None
  then show ?thesis using assms(2) by (simp add: update_light_def)
next
  case (Some img)
  show ?thesis
  proof (cases "torch_roll img delta 1")
    case (Inl e)
    then show ?thesis using Some assms(2) by (simp add: update_light_def)
  next
    case (Inr rolled)
    show ?thesis
    proof (cases "latlong_to_cubemap x rolled [max_res s, max_res s] (device s)")
      case None
      then show ?thesis using Some Inr assms(2)
        by (simp add: update_light_def Let_def base_as_created_def)
    next
      case c: (Some c)
      then have "shape c = [6, max_res s, max_res s, 3]"
        using assms(1) unfolding projector_shape_def by blast
      then show ?thesis using Some Inr c assms(2)
        by (simp add: update_light_def Let_def base_as_created_def)
    qed
  qed
qed

lemma gen_base_image_created:
  assumes "base_as_created a s"
  shows "base_as_created a (snd (gen_base_image x s))"
  using assms
  by (cases "cubemap_to_latlong x (data (base s)) [2048, 4096]")
     (simp_all add: gen_base_image_def base_as_created_def)

lemma build_mips_created:
  assumes "base_as_created a s" "build_mips x s c = Some (r, s')"
  shows "base_as_created a s'"
proof -
  obtain sp d where "s' = s\<lparr>specular := sp, diffuse := d\<rparr>"
    using build_mips_frame[OF assms(2)] by blast
  then show ?thesis using assms(1) by (simp add: base_as_created_def)
qed

lemma invoke_created:
  assumes "projector_shape x" "base_as_created a s" "invoke x s c = Some (r, s')"
  shows "base_as_created a s'"
proof (cases c)
  case (Load p)
  then have "s' = snd (load x s p)" using assms(3) by (metis invoke.simps(1) option.inject snd_conv)
  then show ?thesis using load_created[OF assms(1,2)] by simp
next
  case Gen_base_image
  then have "s' = snd (gen_base_image x s)" using assms(3) by (metis invoke.simps(2) option.inject snd_conv)
  then show ?thesis using gen_base_image_created[OF assms(2)] by simp
next
  case (Update_light delta)
  then have "s' = snd (update_light x s delta)" using assms(3) by (metis invoke.simps(3) option.inject snd_conv)
  then show ?thesis using update_light_created[OF assms(1,2)] by simp
next
  case (Build_mips cutoff)
  then show ?thesis using assms(2,3) build_mips_created by simp
qed

lemma run_created:
  assumes "projector_shape x"
  shows "base_as_created a s \<Longrightarrow> run x s cs = Some s' \<Longrightarrow> base_as_created a s'"
proof (induction cs arbitrary: s)
  case Nil
  then show ?case by simp
next
  case (Cons c cs)
  from Cons.prems(2) obtain r s1 where i: "invoke x s c = Some (r, s1)"
    and rest: "run x s1 cs = Some s'"
    by (auto split: option.splits)
  have "base_as_created a s1" using invoke_created[OF assms Cons.prems(1) i] .
  then show ?case using Cons.IH rest by blast
qed

lemma init_created:
  assumes "projector_shape x" "init x a = Some (Inr s)"
  shows "base_as_created a s"
proof (cases "path_arg a")
  case None
  then have "build_mips x (init_attrs x a) default_cutoff = Some (Inr (), s)"
    using assms(2) by (auto simp: init_def split: option.splits sum.splits prod.splits)
  then show ?thesis using build_mips_created[OF init_attrs_created] by blast
next
  case (Some p)
  then obtain s0 where l: "load x (init_attrs x a) p = (Inr (), s0)"
    and b: "build_mips x s0 default_cutoff = Some (Inr (), s)"
    using init_path[OF assms(2)] by blast
  have "base_as_created a (snd (load x (init_attrs x a) p))"
    using load_created[OF assms(1) init_attrs_created] .
  then have "base_as_created a s0" using l by simp
  then show ?thesis using build_mips_created b by blast
qed

text \<open>
  C9. The constructor creates \<^verbatim>\<open>self.base\<close> as a parameter of shape
  \<open>(6, max_res, max_res, 3)\<close> with \<^verbatim>\<open>requires_grad\<close> equal to the \<^verbatim>\<open>trainable\<close> flag. Let the
  projector return cubemaps of the resolution it is asked for. Then on the object the
  constructor returns, and after any sequence of \<^verbatim>\<open>load\<close>, \<^verbatim>\<open>gen_base_image\<close>,
  \<^verbatim>\<open>update_light\<close> and \<^verbatim>\<open>build_mips\<close> calls that return or raise, the base is the same
  parameter object, \<^verbatim>\<open>requires_grad\<close> still equals \<^verbatim>\<open>trainable\<close>, the shape is unchanged,
  and only the \<^verbatim>\<open>data\<close> of the parameter may differ.
\<close>

theorem base_parameter_preserved:
  assumes "projector_shape x" and "init x a = Some (Inr s)" and "run x s cs = Some s'"
  shows "pid (base (init_attrs x a)) = new_pid a
       \<and> requires_grad (base (init_attrs x a)) = trainable_arg a
       \<and> shape (data (base (init_attrs x a))) = [6, max_res_arg a, max_res_arg a, 3]
       \<and> pid (base s) = new_pid a \<and> requires_grad (base s) = trainable_arg a
       \<and> shape (data (base s)) = [6, max_res_arg a, max_res_arg a, 3]
       \<and> pid (base s') = pid (base s)
       \<and> requires_grad (base s') = trainable s' \<and> trainable s' = trainable_arg a
       \<and> shape (data (base s')) = shape (data (base s))
       \<and> base s' = (base s)\<lparr>data := data (base s')\<rparr>"
proof -
  have i: "base_as_created a s" using init_created[OF assms(1,2)] .
  have f: "base_as_created a s'" using run_created[OF assms(1) i assms(3)] .
  have "base s' = (base s)\<lparr>data := data (base s')\<rparr>"
    using i f by (simp add: base_as_created_def)
  then show ?thesis using i f init_attrs_created[of a x] by (simp add: base_as_created_def)
qed

lemma demo_projector_shape: "projector_shape demo_ext"
  by (simp add: projector_shape_def demo_ext_def demo_latlong_to_cubemap_def)

lemma sky_run: "run demo_ext sky_one sky_session = Some sky_final"
  by (simp add: sky_session_def sky_final_def sky_one_def eval_defs demo_defs torch_roll_def
      roll_src_def upt_rec)

theorem base_parameter_preserved_witness:
  "projector_shape demo_ext \<and> init demo_ext sky_args = Some (Inr sky_one)
   \<and> run demo_ext sky_one sky_session = Some sky_final
   \<and> pid (base sky_final) = pid (base sky_one)
   \<and> requires_grad (base sky_final) = trainable sky_final
   \<and> shape (data (base sky_final)) = [6, 1, 1, 3]
   \<and> data (base sky_final) \<noteq> data (base sky_one)"
proof -
  have m: "max_res_arg sky_args = 1" by (simp add: sky_args_def default_args_def)
  have d: "data (base sky_final) \<noteq> data (base sky_one)"
    by (simp add: sky_final_def sky_one_def)
  show ?thesis
    using base_parameter_preserved[OF demo_projector_shape sky_init sky_run]
      demo_projector_shape sky_init sky_run m d
    by simp
qed

section \<open>Queries\<close>

lemma reshape_error: "reshape t dims = Inl e \<Longrightarrow> e = RuntimeError"
  by (simp add: reshape_def Let_def split: if_splits)

lemma forward_specular_None:
  "\<exists>e. forward_specular x s l None = (Inl e, []) \<and> e \<in> {TypeError, IndexError, RuntimeError}"
proof (cases "length (butlast (shape l)) \<noteq> 3")
  case False
  then show ?thesis by (simp add: forward_specular_def get_mip_def)
next
  case True
  show ?thesis
  proof (cases "shape l = []")
    case e: True
    then show ?thesis using True by (simp add: forward_specular_def)
  next
    case ne: False
    show ?thesis
    proof (cases "reshape l [Some 1, Some 1, None, Some (last (shape l))]")
      case (Inl e)
      then have "e = RuntimeError" by (rule reshape_error)
      then show ?thesis using True ne Inl by (simp add: forward_specular_def)
    next
      case (Inr l')
      then show ?thesis using True ne by (simp add: forward_specular_def get_mip_def)
    qed
  qed
qed

lemma forward_specular_None_grid:
  assumes "length (shape l) = 4"
  shows "forward_specular x s l None = (Inl TypeError, [])"
  using assms by (simp add: forward_specular_def get_mip_def)

lemma forward_diffuse_lookups:
  "snd (forward_diffuse x s l) = [] \<or> (\<exists>a. snd (forward_diffuse x s l) = [a] \<and> tex a = unsqueeze0 (diffuse s))"
  by (simp add: forward_diffuse_def Let_def split: sum.splits option.splits)

lemma call_None:
  assumes "call x s n l None = Some out"
  shows "(\<exists>e. outcome out = Inl e)
       \<and> (lookups out = [] \<or> lookups out = snd (forward_diffuse x (final out) n))"
proof (cases "if trainable s then build_mips x s default_cutoff else Some (Inr (), s)")
  case None
  then show ?thesis using assms by (simp add: call_def)
next
  case (Some rs)
  obtain r s' where rs: "rs = (r, s')" by (cases rs)
  show ?thesis
  proof (cases r)
    case (Inl e)
    then have "out = \<lparr>outcome = Inl e, lookups = [], final = s'\<rparr>"
      using assms Some rs by (simp add: call_def)
    then show ?thesis by simp
  next
    case (Inr u)
    obtain rd tr where d: "forward_diffuse x s' n = (rd, tr)" by (cases "forward_diffuse x s' n")
    obtain e where sp: "forward_specular x s' l None = (Inl e, [])"
      using forward_specular_None by blast
    show ?thesis
    proof (cases rd)
      case (Inl e')
      then have "out = \<lparr>outcome = Inl e', lookups = tr, final = s'\<rparr>"
        using assms Some rs Inr d by (simp add: call_def)
      then show ?thesis using d by simp
    next
      case dl: (Inr diffuse_light)
      then have "out = \<lparr>outcome = Inl e, lookups = tr @ [], final = s'\<rparr>"
        using assms Some rs Inr d sp by (simp add: call_def)
      then show ?thesis using d by simp
    qed
  qed
qed

text \<open>
  C10 (as amended). \<^verbatim>\<open>_forward_specular\<close> with \<^verbatim>\<open>roughness = None\<close> always raises before
  its texture lookup: \<^verbatim>\<open>TypeError\<close> from \<^verbatim>\<open>get_mip\<close>, unless reshaping the directions has
  failed already; the \<^verbatim>\<open>None\<close> guard around the reshape of \<^verbatim>\<open>roughness\<close> does not change
  that. So \<^verbatim>\<open>__call__\<close> with \<^verbatim>\<open>roughness = None\<close> never returns a result. It evaluates
  the diffuse term first, though: the only texture lookup such a call can make is the one
  of \<^verbatim>\<open>_forward_diffuse\<close> into the diffuse map, and it is made before the failure.
\<close>

theorem none_roughness_fails:
  "(\<exists>e. forward_specular x s l None = (Inl e, []) \<and> e \<in> {TypeError, IndexError, RuntimeError})
   \<and> (length (shape l) = 4 \<longrightarrow> forward_specular x s l None = (Inl TypeError, []))
   \<and> (\<forall>out. call x s n l None = Some out \<longrightarrow>
         (\<exists>e. outcome out = Inl e)
       \<and> (lookups out = [] \<or> lookups out = snd (forward_diffuse x (final out) n))
       \<and> (\<forall>a \<in> set (lookups out). tex a = unsqueeze0 (diffuse (final out))))"
proof (intro conjI allI impI)
  show "\<exists>e. forward_specular x s l None = (Inl e, []) \<and> e \<in> {TypeError, IndexError, RuntimeError}"
    by (rule forward_specular_None)
next
  assume "length (shape l) = 4"
  then show "forward_specular x s l None = (Inl TypeError, [])"
    by (rule forward_specular_None_grid)
next
  fix out
  assume c: "call x s n l None = Some out"
  show "\<exists>e. outcome out = Inl e" using call_None[OF c] by blast
  show l: "lookups out = [] \<or> lookups out = snd (forward_diffuse x (final out) n)"
    using call_None[OF c] by blast
  show "\<forall>a \<in> set (lookups out). tex a = unsqueeze0 (diffuse (final out))"
    using l forward_diffuse_lookups[of x "final out" n] by auto
qed

lemmas query_defs = call_def forward_diffuse_def forward_specular_def get_mip_def reshape_def
  unsqueeze0_def index_last0_def

lemma none_call:
  "call demo_ext three_level directions directions None
   = Some \<lparr>outcome = Inl TypeError, lookups = [diffuse_lookup], final = three_level\<rparr>"
  by (simp add: query_defs eval_defs demo_defs three_level_def directions_def diffuse_lookup_def)

theorem none_roughness_fails_witness:
  "length (shape \<lparr>shape = [1, 1, 2, 3], vals = [0, 0, 1, 1, 0, 0]\<rparr>) = 4
   \<and> forward_specular demo_ext three_level \<lparr>shape = [1, 1, 2, 3], vals = [0, 0, 1, 1, 0, 0]\<rparr> None
       = (Inl TypeError, [])
   \<and> call demo_ext three_level directions directions None
       = Some \<lparr>outcome = Inl TypeError, lookups = [diffuse_lookup], final = three_level\<rparr>
   \<and> tex diffuse_lookup = unsqueeze0 (diffuse three_level)"
proof -
  let ?grid = "\<lparr>shape = [1, 1, 2, 3], vals = [0, 0, 1, 1, 0, 0]\<rparr>"
  let ?out = "\<lparr>outcome = Inl TypeError, lookups = [diffuse_lookup], final = three_level\<rparr>"
  have a: "length (shape ?grid) = 4" by simp
  have g: "forward_specular demo_ext three_level ?grid None = (Inl TypeError, [])"
    using none_roughness_fails[of demo_ext three_level ?grid directions,
        THEN conjunct2, THEN conjunct1] a by (rule mp)
  have "\<forall>a \<in> set (lookups ?out). tex a = unsqueeze0 (diffuse (final ?out))"
    by (rule none_roughness_fails[of demo_ext three_level directions directions,
          THEN conjunct2, THEN conjunct2, rule_format, OF none_call,
          THEN conjunct2, THEN conjunct2])
  then have t: "tex diffuse_lookup = unsqueeze0 (diffuse three_level)" by simp
  show ?thesis using a g none_call t by blast
qed

theorem none_roughness_lookup_counterexample:
  "call demo_ext three_level directions directions None
     = Some \<lparr>outcome = Inl TypeError, lookups = [diffuse_lookup], final = three_level\<rparr>
   \<and> lookups \<lparr>outcome = Inl TypeError, lookups = [diffuse_lookup], final = three_level\<rparr> \<noteq> []"
  using none_call by simp

section \<open>Queries and the base\<close>















end
